theory Spec2Isabelle
  imports Main
begin

section \<open>Go strings\<close>

text \<open>
  A Go string is modelled as a \<^typ>\<open>string\<close>, one \<^typ>\<open>char\<close> per byte. The helpers
  of \<^verbatim>\<open>internal/*/util.go\<close> are aliases of the standard library
  (\<^verbatim>\<open>lc = strings.ToLower\<close>, \<^verbatim>\<open>trimS = strings.TrimSpace\<close>, ...); they are
  written out here for the ASCII range. Bytes outside ASCII are left as they are by the
  case folds and are not white space.
\<close>

definition isDigit :: "char \<Rightarrow> bool" where
  "isDigit c = (let n = (of_char c :: nat) in 48 \<le> n \<and> n \<le> 57)"

definition isSpace :: "char \<Rightarrow> bool" where
  "isSpace c = (let n = (of_char c :: nat) in (9 \<le> n \<and> n \<le> 13) \<or> n = 32)"

definition lower_char :: "char \<Rightarrow> char" where
  "lower_char c = (let n = (of_char c :: nat) in if 65 \<le> n \<and> n \<le> 90 then char_of (n + 32) else c)"

definition upper_char :: "char \<Rightarrow> char" where
  "upper_char c = (let n = (of_char c :: nat) in if 97 \<le> n \<and> n \<le> 122 then char_of (n - 32) else c)"

definition lc :: "string \<Rightarrow> string" where
  "lc s = map lower_char s"

definition uc :: "string \<Rightarrow> string" where
  "uc s = map upper_char s"

text \<open>\<^verbatim>\<open>eq = strings.EqualFold\<close>: equality under case folding.\<close>

definition eq :: "string \<Rightarrow> string \<Rightarrow> bool" where
  "eq s t = (lc s = lc t)"

definition trimS :: "string \<Rightarrow> string" where
  "trimS s = rev (dropWhile isSpace (rev (dropWhile isSpace s)))"

text \<open>\<^verbatim>\<open>trimL\<close> and \<^verbatim>\<open>trimR\<close> take a cut set: every leading (trailing) byte that
  occurs in the set is removed.\<close>

definition trimL :: "string \<Rightarrow> string \<Rightarrow> string" where
  "trimL s cutset = dropWhile (\<lambda>c. c \<in> set cutset) s"

definition trimR :: "string \<Rightarrow> string \<Rightarrow> string" where
  "trimR s cutset = rev (dropWhile (\<lambda>c. c \<in> set cutset) (rev s))"

definition hasPfx :: "string \<Rightarrow> string \<Rightarrow> bool" where
  "hasPfx s p = (take (length p) s = p)"

definition hasSfx :: "string \<Rightarrow> string \<Rightarrow> bool" where
  "hasSfx s p = (length p \<le> length s \<and> drop (length s - length p) s = p)"

definition cutPfx :: "string \<Rightarrow> string \<Rightarrow> string \<times> bool" where
  "cutPfx s p = (if hasPfx s p then (drop (length p) s, True) else (s, False))"

text \<open>\<^verbatim>\<open>sidx = strings.Index\<close>: the position of the first occurrence, or -1.\<close>

fun sidx_from :: "nat \<Rightarrow> string \<Rightarrow> string \<Rightarrow> int" where
  "sidx_from i [] sub = (if sub = [] then int i else -1)"
| "sidx_from i (c # cs) sub =
     (if hasPfx (c # cs) sub then int i else sidx_from (Suc i) cs sub)"

definition sidx :: "string \<Rightarrow> string \<Rightarrow> int" where
  "sidx s sub = sidx_from 0 s sub"

definition idxr :: "string \<Rightarrow> char \<Rightarrow> int" where
  "idxr s c = sidx s [c]"

definition ctns :: "string \<Rightarrow> string \<Rightarrow> bool" where
  "ctns s sub = (sidx s sub \<noteq> -1)"

text \<open>\<^verbatim>\<open>split = strings.Split\<close>. Every call in the repository passes a separator of
  one byte (a blank, a dot, a comma or a hyphen), so the separator is a \<^typ>\<open>char\<close>. The
  result is never empty: the empty string splits into one empty field.\<close>

fun split :: "string \<Rightarrow> char \<Rightarrow> string list" where
  "split [] sep = [[]]"
| "split (c # cs) sep =
     (if c = sep then [] # split cs sep
      else (case split cs sep of [] \<Rightarrow> [[c]] | t # ts \<Rightarrow> (c # t) # ts))"

fun join :: "string list \<Rightarrow> string \<Rightarrow> string" where
  "join [] sep = []"
| "join [t] sep = t"
| "join (t # ts) sep = t @ sep @ join ts sep"

text \<open>\<^verbatim>\<open>rplc = strings.ReplaceAll\<close>, for a pattern that is not empty (as at every call
  in the repository); an empty pattern leaves the string as it is here.\<close>

function rplc :: "string \<Rightarrow> string \<Rightarrow> string \<Rightarrow> string" where
  "rplc [] old new = []"
| "rplc (c # cs) old new =
     (if old \<noteq> [] \<and> hasPfx (c # cs) old then new @ rplc (drop (length old) (c # cs)) old new
      else c # rplc cs old new)"
  by pat_completeness auto
termination
  by (relation "measure (\<lambda>(s, old, new). length s)") auto

text \<open>\<^verbatim>\<open>itoa = strconv.Itoa\<close>.\<close>

function digits_of :: "nat \<Rightarrow> string" where
  "digits_of n = (if n < 10 then [char_of (48 + n)] else digits_of (n div 10) @ [char_of (48 + n mod 10)])"
  by pat_completeness auto
termination
  by (relation "measure id") auto

definition itoa :: "int \<Rightarrow> string" where
  "itoa i = (if i < 0 then CHR ''-'' # digits_of (nat (- i)) else digits_of (nat i))"

text \<open>\<^verbatim>\<open>IsNumber\<close> of \<^verbatim>\<open>internal/common/util.go\<close>: not empty, and decimal digits only.\<close>

definition IsNumber :: "string \<Rightarrow> bool" where
  "IsNumber n = (if length n = 0 then False else list_all isDigit n)"

text \<open>\<^verbatim>\<open>RemoveNL\<close> replaces every line feed by the two characters backslash and n (the
  source's replacement is a raw string literal); \<^verbatim>\<open>CondenseWHSP\<close> trims the string and
  writes each run of blanks and tabs as one blank.\<close>

definition RemoveNL :: "string \<Rightarrow> string" where
  "RemoveNL inp = rplc inp [CHR 0x0A] [CHR 0x5C, CHR ''n'']"

fun condense :: "bool \<Rightarrow> string \<Rightarrow> string" where
  "condense prev [] = []"
| "condense prev (c # cs) =
     (if c = CHR 0x09 \<or> c = CHR '' ''
      then (if \<not> prev then CHR '' '' # condense True cs else condense prev cs)
      else c # condense False cs)"

definition CondenseWHSP :: "string \<Rightarrow> string" where
  "CondenseWHSP b = condense False (trimS b)"

section \<open>The collaborator's predicates and the curated tables\<close>

text \<open>
  \<^verbatim>\<open>radir.IsIdentifier\<close> and \<^verbatim>\<open>radir.IsNumericOID\<close> belong to the external package
  go-radir, and the tables \<^verbatim>\<open>i2i\<close>, \<^verbatim>\<open>missingRecordNames\<close>, \<^verbatim>\<open>missingRegistryURNs\<close> and
  \<^verbatim>\<open>JesseOID\<close> are declared in files of the repository that are not among its sources here.
  Each function below takes them as fields of one record, so that what is proved holds
  for every predicate and every table.
\<close>

record tables =
  IsIdentifier :: "string \<Rightarrow> bool"
  IsNumericOID :: "string \<Rightarrow> bool"
  i2i :: "string \<rightharpoonup> string"
  missingRecordNames :: "string \<rightharpoonup> (string \<rightharpoonup> string)"
  missingRegistryURNs :: "string \<rightharpoonup> string"
  JesseOID :: "string list"

section \<open>The identifier legalizer\<close>

text \<open>
  \<^verbatim>\<open>legalizeIdentifier\<close> of \<^verbatim>\<open>internal/iso\<close>. The "retained by" test assigns the trimmed
  remainder to \<^verbatim>\<open>in\<close> before it checks it, so the steps after it see the new value:
  \<open>retained\<close> returns that value.
\<close>

definition retained :: "string \<Rightarrow> string \<times> bool" where
  "retained inp =
     (if ctns (lc inp) ''retained by''
      then (case cutPfx (lc inp) ''retained by'' of
              (rest, found) \<Rightarrow> if found then (trimS rest, True) else (inp, False))
      else (inp, False))"

function legalizeIdentifier :: "('a tables_scheme) \<Rightarrow> string \<Rightarrow> string" where
  "legalizeIdentifier x inp =
     (if IsIdentifier x inp \<or> length inp = 0 then inp
      else let in1 = fst (retained inp) in
        if snd (retained inp) \<and> IsIdentifier x in1 then in1
        else (case i2i x in1 of
                Some lup \<Rightarrow> lup
              | None \<Rightarrow>
                  let ins = split (trimS in1) CHR '' '' in
                  if length ins > 1
                  then (case find (IsIdentifier x) (map (legalizeIdentifier x) ins) of
                          Some tried \<Rightarrow> tried
                        | None \<Rightarrow> [])
                  else let tweaked = rplc (lc (hd ins)) ''_'' ''-'' in
                    if IsIdentifier x tweaked then tweaked
                    else let tweaked2 = rplc (lc (hd ins)) ''.'' [] in
                      if IsIdentifier x tweaked2 then tweaked2 else []))"
  by pat_completeness auto
termination
proof -
  have trim_le: "length (trimS s) \<le> length s" for s
    unfolding trimS_def
    by (metis length_dropWhile_le length_rev order_trans)
  have split_sum: "length (concat (split s c)) + length (split s c) = Suc (length s)" for s c
    by (induction s) (auto split: list.splits)
  have mem_le: "t \<in> set ts \<Longrightarrow> length t \<le> length (concat ts)" for t :: string and ts
    by (induction ts) auto
  have tok_lt: "length t < length s" if "1 < length (split s c)" "t \<in> set (split s c)" for s c t
    using split_sum [of s c] mem_le [OF that(2)] that(1) by linarith
  have ret_le: "length (fst (retained inp)) \<le> length inp" for inp
    unfolding retained_def cutPfx_def lc_def
    using trim_le [of "drop (length ''retained by'') (map lower_char inp)"]
    by (auto split: prod.splits if_splits)
  have dec: "length t < length inp"
    if "1 < length (split (trimS (fst (retained inp))) CHR '' '')"
       "t \<in> set (split (trimS (fst (retained inp))) CHR '' '')" for t inp
    using tok_lt [OF that] trim_le [of "fst (retained inp)"] ret_le [of inp] by linarith
  show ?thesis
    by (relation "measure (\<lambda>(x, inp). length inp)") (auto intro: dec)
qed

section \<open>The tree and its nodes\<close>

text \<open>
  Errors are values: \<^verbatim>\<open>io.EOF\<close>, or an error made from a message
  (\<^verbatim>\<open>mkerr = errors.New\<close>, and the errors of the standard library).
\<close>

datatype error = EOF | Err string

definition errNotEoF :: "error option \<Rightarrow> bool" where
  "errNotEoF err = (case err of None \<Rightarrow> False | Some e \<Rightarrow> e \<noteq> EOF)"

text \<open>
  Modelled from the spec: the profile, the registrant (authority) and the registration
  (node) are types of the external package go-radir; the repository holds only their
  callers. The records below keep the attributes that the callers read and write
  (spec, section 3 and the collaborator contract of section 6): a getter reads a field, a
  setter writes it and reports no error, \<^verbatim>\<open>SetCurrentAuthorities\<close> adds one more
  authority key to the node, and the receivers are nil-safe as the repository's own
  \<^verbatim>\<open>IsZero\<close> receivers are.
\<close>

record profile =
  Dedicated :: bool
  Combined :: bool
  TwoDimensional :: bool
  RegistrationBase :: string

record registrant =
  ath_DN :: string
  ath_Description :: string
  ath_CN :: string
  ath_O :: string
  ath_Email :: string
  ath_URI :: string

type_synonym ref = nat

record registration =
  N :: string
  Identifier :: string
  DotNotation :: string
  ASN1Notation :: string
  IRI :: string
  UnicodeValue :: string
  NameAndNumberForm :: string
  DN :: string
  Description :: string
  CurrentAuthorities :: "string list"
  CombinedO :: string
  CombinedCN :: string
  CombinedEmail :: string
  Range :: string
  Info :: string
  Status :: string
  URI :: string
  Children :: "ref list"

definition NewRegistrant :: registrant where
  "NewRegistrant = \<lparr>ath_DN = [], ath_Description = [], ath_CN = [], ath_O = [],
     ath_Email = [], ath_URI = []\<rparr>"

definition NewRegistration :: registration where
  "NewRegistration = \<lparr>N = [], Identifier = [], DotNotation = [], ASN1Notation = [], IRI = [],
     UnicodeValue = [], NameAndNumberForm = [], DN = [], Description = [],
     CurrentAuthorities = [], CombinedO = [], CombinedCN = [], CombinedEmail = [], Range = [],
     Info = [], Status = [], URI = [], Children = []\<rparr>"

text \<open>
  \<^verbatim>\<open>DIT\<close> of \<^verbatim>\<open>internal/common/dit.go\<close>. The registrations are pointers in the source and
  are shared between the tree and the functions that fill it, so the nodes live in a store
  (\<open>nodes\<close>) and a pointer is an index into it; \<open>None\<close> is the nil pointer. \<open>tree\<close> holds the
  three roots, \<open>aths\<close> the ordered collection of registrants. \<open>dnseed\<close> is the state of the
  collaborator's generator of registrant DNs.
\<close>

record DIT =
  nodes :: "registration list"
  tree :: "ref option list"
  aths :: "registrant list"
  profile :: profile
  dnseed :: nat

definition NewDIT :: "profile \<Rightarrow> DIT" where
  "NewDIT prof = \<lparr>nodes = [], tree = [None, None, None], aths = [], profile = prof, dnseed = 0\<rparr>"

definition deref :: "DIT \<Rightarrow> ref option \<Rightarrow> registration" where
  "deref d h = (case h of None \<Rightarrow> NewRegistration
                | Some r \<Rightarrow> if r < length (nodes d) then nodes d ! r else NewRegistration)"

definition upd :: "DIT \<Rightarrow> ref option \<Rightarrow> (registration \<Rightarrow> registration) \<Rightarrow> DIT" where
  "upd d h f = (case h of None \<Rightarrow> d
                | Some r \<Rightarrow> if r < length (nodes d) then d\<lparr>nodes := (nodes d)[r := f (nodes d ! r)]\<rparr> else d)"

text \<open>Modelled from the spec: \<^verbatim>\<open>Children().Get\<close> looks a child up by its number form and
  never creates; \<^verbatim>\<open>NewChild\<close> allocates a child by arc: the new node carries the number form
  and the identifier it is given, and its dot notation is its parent's with the arc
  appended (each node's path is its parent's path plus one trailing arc).\<close>

definition ChildrenGet :: "DIT \<Rightarrow> ref option \<Rightarrow> string \<Rightarrow> ref option" where
  "ChildrenGet d h number =
     find (\<lambda>c. N (deref d (Some c)) = number) (Children (deref d h))"

definition NewChild :: "DIT \<Rightarrow> ref option \<Rightarrow> string \<Rightarrow> string \<Rightarrow> DIT \<times> ref option" where
  "NewChild d h nf ident =
     (case h of None \<Rightarrow> (d, None)
      | Some r \<Rightarrow>
          if r < length (nodes d)
          then let c = length (nodes d);
                   child = NewRegistration\<lparr>N := nf, Identifier := ident,
                     DotNotation := DotNotation (nodes d ! r) @ ''.'' @ nf\<rparr>;
                   d1 = upd d h (\<lambda>p. p\<lparr>Children := Children p @ [c]\<rparr>)
               in (d1\<lparr>nodes := nodes d1 @ [child]\<rparr>, Some c)
          else (d, None))"

text \<open>Modelled from the spec: \<^verbatim>\<open>Walk\<close> is the lookup by dot notation below a root; it
  returns the node at that path or nil, and never creates.\<close>

fun descend :: "DIT \<Rightarrow> ref option \<Rightarrow> string list \<Rightarrow> ref option" where
  "descend d h [] = h"
| "descend d h (a # arcs) =
     (case ChildrenGet d h a of None \<Rightarrow> None | Some c \<Rightarrow> descend d (Some c) arcs)"

definition Walk :: "DIT \<Rightarrow> ref option \<Rightarrow> string \<Rightarrow> ref option" where
  "Walk d root dot =
     (case split dot CHR ''.'' of
        [] \<Rightarrow> None
      | a # arcs \<Rightarrow> if root \<noteq> None \<and> a = N (deref d root) then descend d root arcs else None)"

text \<open>Modelled from the spec: \<^verbatim>\<open>Children().SortByNumberForm\<close> orders the children of a node
  by ascending numeric arc.\<close>

definition arc_value :: "string \<Rightarrow> nat" where
  "arc_value s = foldl (\<lambda>v c. 10 * v + (of_char c - 48)) 0 s"

definition SortByNumberForm :: "DIT \<Rightarrow> ref option \<Rightarrow> DIT" where
  "SortByNumberForm d h =
     upd d h (\<lambda>p. p\<lparr>Children := sort_key (\<lambda>c. arc_value (N (deref d (Some c)))) (Children p)\<rparr>)"

text \<open>The roots, as \<^verbatim>\<open>DIT.ITUT\<close>, \<^verbatim>\<open>DIT.ISO\<close> and \<^verbatim>\<open>DIT.JointISOITUT\<close> make them on
  first use. A root's dot notation is its number form.\<close>

definition root_node :: "DIT \<Rightarrow> nat \<Rightarrow> string \<Rightarrow> string \<Rightarrow> string \<Rightarrow> string \<Rightarrow> string \<Rightarrow> DIT \<times> ref option" where
  "root_node d i n iri asn uv nanf =
     (case tree d ! i of
        Some r \<Rightarrow> (d, Some r)
      | None \<Rightarrow>
          let r = length (nodes d);
              node = NewRegistration\<lparr>N := n, DotNotation := n, IRI := iri, ASN1Notation := asn,
                UnicodeValue := uv, NameAndNumberForm := nanf,
                DN := ''n='' @ n @ '','' @ RegistrationBase (profile d)\<rparr>
          in (d\<lparr>nodes := nodes d @ [node], tree := (tree d)[i := Some r]\<rparr>, Some r))"

definition ITUT :: "DIT \<Rightarrow> DIT \<times> ref option" where
  "ITUT d = root_node d 0 ''0'' ''/ITU-T'' ''{itu-t(0)}'' ''ITU-T'' ''itu-t(0)''"

definition ISO :: "DIT \<Rightarrow> DIT \<times> ref option" where
  "ISO d = root_node d 1 ''1'' ''/ISO'' ''{iso(1)}'' ''ISO'' ''iso(1)''"

definition JointISOITUT :: "DIT \<Rightarrow> DIT \<times> ref option" where
  "JointISOITUT d = root_node d 2 ''2'' ''/Joint-ISO-ITU-T'' ''{joint-iso-itu-t(2)}''
     ''Joint-ISO-ITU-T'' ''joint-iso-itu-t(2)''"

definition Root :: "DIT \<Rightarrow> int \<Rightarrow> DIT \<times> ref option" where
  "Root d n =
     (if 0 \<le> n \<and> n \<le> 2
      then (if n = 0 then ITUT d else if n = 1 then ISO d else JointISOITUT d)
      else (d, None))"

section \<open>The registry documents\<close>

text \<open>The structures of \<^verbatim>\<open>internal/iso\<close> that the decoders fill: the flat registry's entry
  (\<^verbatim>\<open>pen\<close>), and the nested registry's cross-reference, note, person, record and registry.\<close>

record pen =
  Decimal :: int
  Name :: string
  Contact :: string
  Email :: string

record xref =
  xref_Type :: string
  xref_Data :: string
  xref_Content :: string

record inner =
  inner_Text :: string
  inner_Title :: string
  inner_XRef :: "xref list"
  inner_FullText :: string

record person =
  person_ID :: string
  person_Name :: string
  person_URI :: string

record smi_record =
  rec_Value :: string
  rec_Name :: string
  rec_Description :: string
  rec_XRef :: "xref list"

datatype registry = Registry
  (reg_Description: string)
  (reg_ID: string)
  (reg_Title: string)
  (reg_Expert: inner)
  (reg_Note: "inner list")
  (reg_XRef: "xref list")
  (reg_Registries: "registry list")
  (reg_Records: "smi_record list")
  (reg_experts: "registrant list")

text \<open>
  What the repository calls and does not define: the collaborator's allocation by path
  (\<^verbatim>\<open>Registration.Allocate\<close>), its two DN builders and its generator of registrant DNs,
  the file system (\<^verbatim>\<open>os.Open\<close> with the file's content, \<^verbatim>\<open>bufio.Scanner\<close> with the lines
  it yields and its final \<^verbatim>\<open>Err()\<close>), and the XML decoder (\<^verbatim>\<open>xml.Unmarshal\<close> of a whole
  document into the people and the registries, and the decoding of a note's inner markup
  by \<^verbatim>\<open>encoding/xml\<close> in \<^verbatim>\<open>inner.unmarshalXML\<close>, with the error it ends on). They extend the
  record of the tables.
\<close>

record env = tables +
  Allocate :: "DIT \<Rightarrow> ref option \<Rightarrow> string \<Rightarrow> DIT \<times> ref option"
  DotNotToDN2D :: "string \<Rightarrow> string"
  DotNotToDN3D :: "string \<Rightarrow> string"
  RegistrantDNGenerator :: "nat \<Rightarrow> string"
  osOpen :: "string \<Rightarrow> error + string"
  scanLines :: "string \<Rightarrow> string list \<times> error option"
  xmlUnmarshal :: "string \<Rightarrow> error option \<times> person list \<times> registry list"
  decodeNote :: "inner \<Rightarrow> error option \<times> inner"

text \<open>Modelled from the spec: the allocation by path of section 4.1, the instance of
  \<open>Allocate\<close> that the scenarios run. The path is a dot notation or a bracketed notation
  whose arcs are \<^verbatim>\<open>name(number)\<close> or a bare number; its first arc is the root. The node at
  the path is returned when it exists, with no side effect; every missing node is created
  from the shallowest to the deepest. A path that is empty, has an arc that is not a number
  or does not start at the root fails: nil is returned and nothing is created.\<close>

definition arc_of :: "string \<Rightarrow> string \<times> string" where
  "arc_of tok =
     (if idxr tok CHR ''('' = -1 then ([], tok)
      else (takeWhile (\<lambda>c. c \<noteq> CHR ''('') tok,
            trimR (drop 1 (dropWhile (\<lambda>c. c \<noteq> CHR ''('') tok)) '')''))"

definition arcs_of :: "string \<Rightarrow> (string \<times> string) list" where
  "arcs_of s =
     (if hasPfx s ''{''
      then map arc_of (filter (\<lambda>t. t \<noteq> []) (split (trimS (trimR (trimL s ''{'') ''}'')) CHR '' ''))
      else map (\<lambda>a. ([], a)) (split s CHR ''.''))"

fun allocate_arcs :: "DIT \<Rightarrow> ref option \<Rightarrow> (string \<times> string) list \<Rightarrow> DIT \<times> ref option" where
  "allocate_arcs d h [] = (d, h)"
| "allocate_arcs d h ((name, number) # arcs) =
     (case ChildrenGet d h number of
        Some c \<Rightarrow> allocate_arcs d (Some c) arcs
      | None \<Rightarrow> (case NewChild d h number name of (d1, c) \<Rightarrow> allocate_arcs d1 c arcs))"

definition Allocate_spec :: "DIT \<Rightarrow> ref option \<Rightarrow> string \<Rightarrow> DIT \<times> ref option" where
  "Allocate_spec d root s =
     (case arcs_of s of
        [] \<Rightarrow> (d, None)
      | (name, number) # arcs \<Rightarrow>
          if root \<noteq> None \<and> list_all (\<lambda>a. IsNumber (snd a)) ((name, number) # arcs)
             \<and> number = N (deref d root)
          then allocate_arcs d root arcs
          else (d, None))"

text \<open>\<^verbatim>\<open>DIT.Prime\<close>: every notation of the catalogue is allocated below root \<open>n\<close>.\<close>

fun prime_nodes :: "env \<Rightarrow> DIT \<Rightarrow> ref option \<Rightarrow> string list \<Rightarrow> DIT" where
  "prime_nodes x d root [] = d"
| "prime_nodes x d root (node # rest) = prime_nodes x (fst (Allocate x d root node)) root rest"

definition Prime :: "env \<Rightarrow> DIT \<Rightarrow> int \<Rightarrow> string list \<Rightarrow> DIT" where
  "Prime x d n ns =
     (if 0 \<le> n \<and> n \<le> 2 then (case Root d n of (d1, root) \<Rightarrow> prime_nodes x d1 root ns) else d)"

section \<open>The flat registry\<close>

definition entASNPfx :: string where
  "entASNPfx = ''{iso(1) identified-organization(3) dod(6) internet(1) private(4) enterprise(1)''"

definition entDotPfx :: string where
  "entDotPfx = ''1.3.6.1.4.1''"

definition nilInstanceErr :: error where
  "nilInstanceErr = Err ''Instance or receiver is nil; must initialize''"

text \<open>The setters of the collaborator take one value and return an error; a list of
  (field, setter) pairs is run as the source's loops run it: a field that is empty or
  \<^verbatim>\<open>---none---\<close> is passed over, and the first error ends the loop.\<close>

type_synonym setter = "string \<Rightarrow> DIT \<Rightarrow> error option \<times> DIT"

fun run_setters :: "(string \<times> setter) list \<Rightarrow> DIT \<Rightarrow> error option \<times> DIT" where
  "run_setters [] d = (None, d)"
| "run_setters ((field, func) # rest) d =
     (if field \<noteq> ''---none---'' \<and> field \<noteq> []
      then (case func field d of
              (Some e, d1) \<Rightarrow> (Some e, d1)
            | (None, d1) \<Rightarrow> run_setters rest d1)
      else run_setters rest d)"

definition set_node :: "ref option \<Rightarrow> (string \<Rightarrow> registration \<Rightarrow> registration) \<Rightarrow> setter" where
  "set_node h f v d = (None, upd d h (f v))"

definition set_ath :: "nat \<Rightarrow> (string \<Rightarrow> registrant \<Rightarrow> registrant) \<Rightarrow> setter" where
  "set_ath i f v d = (None, d\<lparr>aths := (aths d)[i := f v (aths d ! i)]\<rparr>)"

text \<open>\<^verbatim>\<open>pen.handleRegistrant\<close>. Under the dedicated policy the new registrant is pushed onto
  the collection before its fields are set; it is a pointer in the source, so the setters
  write the pushed element (at index \<open>i\<close>).\<close>

definition handleRegistrant :: "env \<Rightarrow> pen \<Rightarrow> ref option \<Rightarrow> DIT \<Rightarrow> error option \<times> DIT" where
  "handleRegistrant x r child dit =
     (if Dedicated (profile dit)
      then let dn = RegistrantDNGenerator x (dnseed dit);
               athy = NewRegistrant\<lparr>ath_DN := dn\<rparr>;
               d1 = upd (dit\<lparr>dnseed := Suc (dnseed dit)\<rparr>) child
                      (\<lambda>c. c\<lparr>CurrentAuthorities := CurrentAuthorities c @ [dn]\<rparr>);
               i = length (aths d1);
               d2 = d1\<lparr>aths := aths d1 @ [athy]\<rparr>
           in run_setters
                [(Name r, set_ath i (\<lambda>v a. a\<lparr>ath_O := v\<rparr>)),
                 (Name r, set_ath i (\<lambda>v a. a\<lparr>ath_Description := v\<rparr>)),
                 (Name r, set_node child (\<lambda>v c. c\<lparr>Description := v\<rparr>)),
                 (Contact r, set_ath i (\<lambda>v a. a\<lparr>ath_CN := v\<rparr>)),
                 (Email r, set_ath i (\<lambda>v a. a\<lparr>ath_Email := v\<rparr>))] d2
      else if Combined (profile dit)
      then run_setters
             [(Name r, set_node child (\<lambda>v c. c\<lparr>CombinedO := v\<rparr>)),
              (Name r, set_node child (\<lambda>v c. c\<lparr>Description := v\<rparr>)),
              (Contact r, set_node child (\<lambda>v c. c\<lparr>CombinedCN := v\<rparr>)),
              (Email r, set_node child (\<lambda>v c. c\<lparr>CombinedEmail := v\<rparr>))] dit
      else (None, dit))"

text \<open>\<^verbatim>\<open>penRegistry.loadJesseCoretta\<close>.\<close>

fun loadJesseCoretta :: "env \<Rightarrow> string list \<Rightarrow> DIT \<Rightarrow> DIT" where
  "loadJesseCoretta x [] d = d"
| "loadJesseCoretta x (j # js) d =
     (case ISO d of (d1, root) \<Rightarrow> loadJesseCoretta x js (fst (Allocate x d1 root j)))"

text \<open>\<^verbatim>\<open>penRegistry.unmarshal\<close>: the loop over the numbers, then the function. The slice
  \<^verbatim>\<open>r.Numbers\<close> that the loop shortens is local to the load and is not read again.\<close>

fun pen_loop :: "env \<Rightarrow> (string \<Rightarrow> string) \<Rightarrow> ref option \<Rightarrow> pen list \<Rightarrow> DIT \<Rightarrow> error option \<times> DIT" where
  "pen_loop x dnFunc parent [] d = (None, d)"
| "pen_loop x dnFunc parent (ent # rest) d =
     (case NewChild d parent (itoa (Decimal ent)) [] of
        (d1, child) \<Rightarrow>
          let d2 = upd d1 child (\<lambda>c. c\<lparr>DN := dnFunc (DotNotation (deref d1 child))\<rparr>) in
          (case handleRegistrant x ent child d2 of
             (Some e, d3) \<Rightarrow> (Some e, d3)
           | (None, d3) \<Rightarrow>
               let d4 = (if N (deref d3 child) = ''56521''
                         then loadJesseCoretta x (JesseOID x) d3 else d3)
               in pen_loop x dnFunc parent rest d4))"

definition penRegistry_unmarshal :: "env \<Rightarrow> pen list \<Rightarrow> DIT \<Rightarrow> error option \<times> DIT" where
  "penRegistry_unmarshal x numbers dit =
     (case ISO dit of
        (d1, root) \<Rightarrow>
          let parent = Walk d1 root entDotPfx in
          if parent = None
          then (Some (Err ''Missing 1.3.6.1.4.1 parent; DIT must be primed before use''), d1)
          else
            let dnFunc = (if TwoDimensional (profile dit) then DotNotToDN2D x else DotNotToDN3D x);
                d2 = (if ASN1Notation (deref d1 parent) = []
                      then upd d1 parent (\<lambda>p. p\<lparr>ASN1Notation := ''{'' @ entASNPfx @ ''}''\<rparr>)
                      else d1)
            in pen_loop x dnFunc parent numbers d2)"

text \<open>\<^verbatim>\<open>fmt.Sscanf(line, "%d", &ent.Decimal)\<close>: leading white space is skipped, an optional
  sign and the longest run of digits and underscores are read and parsed as a decimal
  64-bit integer. When no digit is there, an underscore is among them or the value does
  not fit, the scan fails and the variable keeps its value: the result is \<open>None\<close>.\<close>

definition Sscanf_d :: "string \<Rightarrow> int option" where
  "Sscanf_d line =
     (let s = dropWhile isSpace line;
          neg = (s \<noteq> [] \<and> hd s = CHR ''-'');
          s1 = (if s \<noteq> [] \<and> (hd s = CHR ''-'' \<or> hd s = CHR ''+'') then tl s else s);
          tok = takeWhile (\<lambda>c. isDigit c \<or> c = CHR ''_'') s1
      in if tok = [] \<or> \<not> list_all isDigit tok then None
         else let v = (if neg then - int (arc_value tok) else int (arc_value tok))
              in if - (2 ^ 63) \<le> v \<and> v < 2 ^ 63 then Some v else None)"

text \<open>One turn of the scanning loop of \<^verbatim>\<open>LoadPENRegistry\<close>, on the entry being filled and
  the entries emitted so far. A line that is not blank fills the first field that is still
  owed and, unless that field is the email, ends the turn (\<^verbatim>\<open>continue\<close>). At the end of the
  turn an entry whose decimal is not -1 is emitted and the entry is reset.\<close>

definition reset_pen :: pen where
  "reset_pen = \<lparr>Decimal = -1, Name = [], Contact = [], Email = []\<rparr>"

definition zero_pen :: pen where
  "zero_pen = \<lparr>Decimal = 0, Name = [], Contact = [], Email = []\<rparr>"

definition emit :: "pen \<times> pen list \<Rightarrow> pen \<times> pen list" where
  "emit st =
     (case st of (ent, numbers) \<Rightarrow>
        if Decimal ent \<noteq> -1 then (reset_pen, numbers @ [ent]) else (ent, numbers))"

definition scan_step :: "pen \<times> pen list \<Rightarrow> string \<Rightarrow> pen \<times> pen list" where
  "scan_step st line =
     (case st of (ent, numbers) \<Rightarrow>
        if trimS line \<noteq> []
        then (if Decimal ent = -1
              then (case Sscanf_d line of
                      Some v \<Rightarrow> (ent\<lparr>Decimal := v\<rparr>, numbers)
                    | None \<Rightarrow> (ent, numbers))
              else if Name ent = [] then (ent\<lparr>Name := trimS line\<rparr>, numbers)
              else if Contact ent = [] then (ent\<lparr>Contact := trimS line\<rparr>, numbers)
              else if Email ent = [] then emit (ent\<lparr>Email := trimS line\<rparr>, numbers)
              else emit (ent, numbers))
        else emit (ent, numbers))"

text \<open>The scanning of \<^verbatim>\<open>LoadPENRegistry\<close>: the first sixteen lines are skipped, the entry
  starts as the zero value of \<^verbatim>\<open>pen\<close> (decimal 0, where the reset entry has -1), and the loop
  runs over the lines that are left. An entry that is still being filled at the end of the
  file is not emitted.\<close>

definition scan_numbers :: "string list \<Rightarrow> pen list" where
  "scan_numbers lines = snd (foldl scan_step (zero_pen, []) (drop 16 lines))"

text \<open>\<^verbatim>\<open>LoadPENRegistry\<close>.\<close>

definition LoadPENRegistry :: "env \<Rightarrow> DIT option \<Rightarrow> string \<Rightarrow> error option \<times> DIT option" where
  "LoadPENRegistry x r filename =
     (case r of
        None \<Rightarrow> (Some nilInstanceErr, None)
      | Some dit \<Rightarrow>
          (case osOpen x filename of
             Inl e \<Rightarrow> (Some e, Some dit)
           | Inr f \<Rightarrow>
               (case scanLines x f of
                  (lines, serr) \<Rightarrow>
                    let numbers = scan_numbers lines
                    in (case serr of
                          Some e \<Rightarrow> (Some e, Some dit)
                        | None \<Rightarrow>
                            (case penRegistry_unmarshal x numbers dit of
                               (err, d1) \<Rightarrow> (err, Some d1))))))"

section \<open>The cross-reference classifier\<close>

definition RFCURIPrefix :: string where
  "RFCURIPrefix = ''https://datatracker.ietf.org/doc/html/''"

definition RFCErrataPrefix :: string where
  "RFCErrataPrefix = ''https://www.rfc-editor.org/errata_search.php?eid=''"

definition IANAAssignmentsPrefix :: string where
  "IANAAssignmentsPrefix = ''https://iana.org/assignments/''"

definition SetURI :: "ref option \<Rightarrow> string \<Rightarrow> DIT \<Rightarrow> DIT" where
  "SetURI reg v d = upd d reg (\<lambda>c. c\<lparr>URI := v\<rparr>)"

definition SetStatus :: "ref option \<Rightarrow> string \<Rightarrow> DIT \<Rightarrow> DIT" where
  "SetStatus reg v d = upd d reg (\<lambda>c. c\<lparr>Status := v\<rparr>)"

definition SetInfo :: "ref option \<Rightarrow> string \<Rightarrow> DIT \<Rightarrow> DIT" where
  "SetInfo reg v d = upd d reg (\<lambda>c. c\<lparr>Info := v\<rparr>)"

definition SetCurrentAuthorities :: "ref option \<Rightarrow> string \<Rightarrow> DIT \<Rightarrow> DIT" where
  "SetCurrentAuthorities reg dn d =
     upd d reg (\<lambda>c. c\<lparr>CurrentAuthorities := CurrentAuthorities c @ [dn]\<rparr>)"

text \<open>\<^verbatim>\<open>xref.processDataUsers\<close>, \<^verbatim>\<open>xref.processContentUsers\<close> and \<^verbatim>\<open>xref.process\<close>. The
  registry argument of the source is not read by them and is left out.\<close>

definition processDataUsers :: "xref \<Rightarrow> ref option \<Rightarrow> DIT \<Rightarrow> DIT" where
  "processDataUsers r reg d =
     (if xref_Data r = [] then d
      else if xref_Type r = ''rfc'' \<or> xref_Type r = ''draft''
      then SetURI reg (RFCURIPrefix @ xref_Data r @ '' '' @ uc (xref_Data r)) d
      else if xref_Type r = ''rfc-errata''
      then SetURI reg (RFCErrataPrefix @ xref_Data r @ '' Errata ID '' @ xref_Data r) d
      else if xref_Type r = ''uri''
      then (if xref_Content r \<noteq> [] then SetURI reg (xref_Data r @ '' '' @ xref_Content r) d else d)
      else if xref_Type r = ''note''
      then (if xref_Data r = ''1'' then SetStatus reg ''OBSOLETE'' d else SetInfo reg (xref_Data r) d)
      else d)"

definition processContentUsers :: "xref \<Rightarrow> ref option \<Rightarrow> DIT \<Rightarrow> DIT" where
  "processContentUsers r reg d =
     (if xref_Content r = ''Not Defined ?'' \<or> xref_Content r = [] then d
      else if xref_Type r = ''registry'' then SetInfo reg (RemoveNL (xref_Content r)) d
      else if xref_Type r = ''text''
      then (let v = CondenseWHSP (RemoveNL (xref_Content r))
            in if eq v ''obsolete'' then SetStatus reg ''OBSOLETE'' d else SetInfo reg v d)
      else d)"

definition process :: "xref \<Rightarrow> ref option \<Rightarrow> DIT \<Rightarrow> DIT" where
  "process r reg d =
     (if xref_Type r = ''registry'' \<or> xref_Type r = ''text'' then processContentUsers r reg d
      else if xref_Type r \<in> set [''rfc'', ''rfc-errata'', ''draft'', ''note'', ''uri'', ''person'']
      then processDataUsers r reg d
      else d)"

section \<open>The nested registry\<close>

text \<open>\<^verbatim>\<open>record.obsolete\<close>: the first cross-reference of type note or text decides.\<close>

fun obsolete_xrefs :: "xref list \<Rightarrow> bool" where
  "obsolete_xrefs [] = False"
| "obsolete_xrefs (xr # rest) =
     (if xref_Type xr = ''note'' then xref_Data xr = ''1''
      else if xref_Type xr = ''text'' then lc (xref_Content xr) = ''obsolete''
      else obsolete_xrefs rest)"

definition obsolete :: "smi_record \<Rightarrow> bool" where
  "obsolete r = obsolete_xrefs (rec_XRef r)"

text \<open>\<^verbatim>\<open>record.processValue\<close> returns the dot notation, the number, the range terminus and
  the error. A value with a hyphen splits into at least two fields.\<close>

definition processValue :: "env \<Rightarrow> smi_record \<Rightarrow> string \<times> string \<times> string \<times> error option" where
  "processValue x r =
     (let v = rec_Value r in
      if hasSfx v '' and up'' then ([], take (length v - 7) v, ''-1'', None)
      else if idxr v CHR ''-'' \<noteq> -1
      then (let sp = split v CHR ''-'' in ([], hd sp, hd (tl sp), None))
      else if IsNumber v then ([], v, [], None)
      else if IsNumericOID x v
      then (let sp = split v CHR ''.'' in (v, last sp, [], None))
      else ([], [], [], Some (Err (''Bad value; not a range, number form or dotNotation: '' @ v))))"

definition patchMissingName :: "env \<Rightarrow> string \<Rightarrow> string \<Rightarrow> string \<times> bool" where
  "patchMissingName x oid leaf =
     (if \<not> IsNumber leaf then ([], False)
      else (case missingRecordNames x oid of
              None \<Rightarrow> ([], False)
            | Some entry \<Rightarrow> (case entry leaf of None \<Rightarrow> ([], False) | Some name \<Rightarrow> (name, True))))"

definition processIdentifier :: "env \<Rightarrow> smi_record \<Rightarrow> string \<Rightarrow> string" where
  "processIdentifier x r dot =
     (if \<not> IsNumber (rec_Name r)
      then let identifier =
                 (if rec_Name r = []
                  then (case patchMissingName x dot (rec_Value r) of
                          (name, found) \<Rightarrow>
                            if \<not> found \<and> length (rec_Description r) > 0
                            then rec_Description r else name)
                  else rec_Name r);
               legal = legalizeIdentifier x identifier
           in if \<not> IsIdentifier x legal
              then (let alt = legalizeIdentifier x (rec_Description r)
                    in if IsIdentifier x alt then alt else [])
              else legal
      else [])"

text \<open>\<^verbatim>\<open>records.unmarshal\<close>. \<open>people\<close> is the map \<^verbatim>\<open>smi.people\<close>; its values are pointers to
  registrants that are not written after they are stored, so the map holds them by value.
  \<open>xref_step\<close> is the body of the loop over a record's cross-references and
  \<open>record_step\<close> the body of the loop over the records.\<close>

definition xref_step :: "(string \<rightharpoonup> registrant) \<Rightarrow> ref option \<Rightarrow> DIT \<Rightarrow> xref \<Rightarrow> DIT" where
  "xref_step people child d xr =
     (let d1 = process xr child d in
      if xref_Type xr = ''person''
      then (case people (xref_Data xr) of
              None \<Rightarrow> d1
            | Some athy \<Rightarrow>
                if Dedicated (profile d) then SetCurrentAuthorities child (ath_DN athy) d1
                else if Combined (profile d)
                then upd d1 child (\<lambda>c. c\<lparr>CombinedEmail := ath_Email athy, CombinedCN := ath_CN athy,
                       CombinedO := ath_O athy, Description := ath_Description athy\<rparr>)
                else d1)
      else d1)"

definition record_step :: "env \<Rightarrow> (string \<rightharpoonup> registrant) \<Rightarrow> ref option \<Rightarrow> DIT \<Rightarrow> smi_record \<Rightarrow> DIT" where
  "record_step x people parent d r =
     (case processValue x r of
        (dot, number, rangeTerm, err) \<Rightarrow>
          if err \<noteq> None \<or> obsolete r then d
          else let ident0 = processIdentifier x r (DotNotation (deref d parent));
                   identifier = (if length ident0 = 0 then number else ident0)
               in (case ChildrenGet d parent number of
                     Some c \<Rightarrow> d
                   | None \<Rightarrow>
                       (case NewChild d parent number identifier of
                          (d1, child) \<Rightarrow>
                            let d2 = (if rangeTerm \<noteq> [] then upd d1 child (\<lambda>c. c\<lparr>Range := rangeTerm\<rparr>) else d1);
                                d3 = (if ctns (Identifier (deref d2 child)) ''.''
                                      then upd d2 child (\<lambda>c. c\<lparr>Identifier := identifier\<rparr>) else d2)
                            in foldl (xref_step people child) d3 (rec_XRef r))))"

definition records_unmarshal :: "env \<Rightarrow> (string \<rightharpoonup> registrant) \<Rightarrow> ref option \<Rightarrow> smi_record list \<Rightarrow> DIT \<Rightarrow> DIT" where
  "records_unmarshal x people parent rs d =
     SortByNumberForm (foldl (record_step x people parent) d rs) parent"

text \<open>\<^verbatim>\<open>descriptionAndOID\<close>: the brackets are removed, and of the fields between blanks the
  last that is a numeric OID is the path and the last that is not is the description.\<close>

definition descriptionAndOID :: "env \<Rightarrow> string \<Rightarrow> string \<times> string" where
  "descriptionAndOID x descr =
     (if descr \<noteq> []
      then let desc0 = foldl (\<lambda>dsc ch. trimS (rplc dsc ch [])) descr [''['', '']'', ''('', '')''];
               sp = map (\<lambda>t. trimR t ''.'') (split desc0 CHR '' '');
               res = foldl (\<lambda>(desc, dot) t.
                        if IsNumericOID x t then (desc, t)
                        else if length (split t CHR ''.'') > 0 then (t, dot)
                        else (desc, dot)) (desc0, []) sp
           in (fst res, trimR (snd res) ''.'')
      else ([], []))"

text \<open>\<^verbatim>\<open>buildASN1Not\<close>.\<close>

definition buildASN1Not :: "string list \<Rightarrow> string list \<Rightarrow> string" where
  "buildASN1Not sp path =
     (if length sp = length path
      then let path1 = (if length path > 1 \<and> path ! 1 = ''org''
                        then path[1 := ''identified-organization''] else path);
               slice = map (\<lambda>(p, n). if \<not> IsNumber p then p @ ''('' @ n @ '')'' else n) (zip path1 sp)
           in ''{'' @ join slice '' '' @ ''}''
      else [])"

text \<open>\<^verbatim>\<open>inner.unmarshalXML\<close>: the decoding is the environment's; an error that is
  \<^verbatim>\<open>io.EOF\<close> is cleared before the function returns.\<close>

definition unmarshalXML :: "env \<Rightarrow> inner \<Rightarrow> error option \<times> inner" where
  "unmarshalXML x n =
     (case decodeNote x n of (err, n1) \<Rightarrow> (if errNotEoF err then err else None, n1))"

text \<open>The loop over the notes of \<^verbatim>\<open>registry.unmarshalRecords\<close>. The cut sets of the trims
  are the raw string literal of a backslash and the letter n.\<close>

definition note_xref :: "inner \<Rightarrow> xref \<Rightarrow> xref" where
  "note_xref n xr =
     (if xref_Type xr = ''uri'' \<and> inner_Title n \<noteq> [] then xr\<lparr>xref_Content := inner_Title n\<rparr>
      else if xref_Type xr = ''registry''
      then xr\<lparr>xref_Type := ''uri'', xref_Data := IANAAssignmentsPrefix @ xref_Data xr\<rparr>
      else xr)"

fun notes_loop :: "env \<Rightarrow> ref option \<Rightarrow> inner list \<Rightarrow> DIT \<Rightarrow> error option \<times> DIT" where
  "notes_loop x parent [] d = (None, d)"
| "notes_loop x parent (n # rest) d =
     (let nl = [CHR 0x5C, CHR ''n''];
          clean = trimR (trimR (trimL (trimS (inner_Text n)) nl) nl) nl
      in (case unmarshalXML x n of
            (err, n1) \<Rightarrow>
              if errNotEoF err then (err, d)
              else let d1 = (if length (inner_FullText n1) > 0 \<and> clean \<noteq> [] \<and> \<not> hasPfx clean ''<''
                             then SetInfo parent (CondenseWHSP (RemoveNL (inner_FullText n1))) d
                             else d);
                       d2 = foldl (\<lambda>dd xr. process (note_xref n1 xr) parent dd) d1 (inner_XRef n1)
                   in notes_loop x parent rest d2))"

text \<open>\<^verbatim>\<open>registry.unmarshalRecords\<close>. \<open>registry_prelude\<close> is the function up to the
  comparison of the two dot notations: the allocation of the node, the experts, the
  cross-references and the notes. The branch of the source that reads \<^verbatim>\<open>path\<close> before it
  is assigned cannot be taken and is left out.\<close>

definition srcinfo :: "registry \<Rightarrow> string" where
  "srcinfo r = (if reg_Title r \<noteq> [] \<and> reg_Description r = [] then reg_Title r else reg_Description r)"

definition registry_prelude :: "env \<Rightarrow> registry \<Rightarrow> string \<Rightarrow> DIT \<Rightarrow> (error option \<times> DIT) \<times> ref option" where
  "registry_prelude x r oid d =
     (case ISO d of
        (d1, root) \<Rightarrow>
          (case Allocate x d1 root oid of
             (d2, parent) \<Rightarrow>
               let d3 = foldl (\<lambda>dd expert. SetCurrentAuthorities parent (ath_DN expert) dd) d2 (reg_experts r);
                   d4 = foldl (\<lambda>dd xr. process xr parent dd) d3 (reg_XRef r)
               in (notes_loop x parent (reg_Note r) d4, parent)))"

definition unmarshalRecords :: "env \<Rightarrow> (string \<rightharpoonup> registrant) \<Rightarrow> registry \<Rightarrow> DIT \<Rightarrow> error option \<times> DIT" where
  "unmarshalRecords x people r d =
     (case descriptionAndOID x (srcinfo r) of
        (desc, oid) \<Rightarrow>
          if oid = [] then (None, d)
          else
            (case registry_prelude x r oid d of
               ((err, d5), parent) \<Rightarrow>
                 if err \<noteq> None then (err, d5)
                 else
                   let sp = split oid CHR ''.'';
                       dot = DotNotation (deref d5 parent)
                   in if dot \<noteq> oid then (Some (Err (''Allocation error: '' @ dot @ '' != '' @ oid)), d5)
                      else
                        let dp = split desc CHR ''.'';
                            path = (if length dp = length sp then dp else []);
                            ident = (if length dp = length sp then last dp else []);
                            d6 = (if Identifier (deref d5 parent) = []
                                  then upd d5 parent (\<lambda>c. c\<lparr>Identifier := ident\<rparr>) else d5);
                            d7 = upd d6 parent (\<lambda>c. c\<lparr>ASN1Notation := buildASN1Not sp path\<rparr>)
                        in (None, records_unmarshal x people parent (reg_Records r) d7)))"

text \<open>\<^verbatim>\<open>registry.unmarshal\<close>: the registry's own records, then its sub-registries, up to the
  first error.\<close>

fun registry_unmarshal :: "env \<Rightarrow> (string \<rightharpoonup> registrant) \<Rightarrow> registry \<Rightarrow> DIT \<Rightarrow> error option \<times> DIT"
  and registries_unmarshal :: "env \<Rightarrow> (string \<rightharpoonup> registrant) \<Rightarrow> registry list \<Rightarrow> DIT \<Rightarrow> error option \<times> DIT"
where
  "registry_unmarshal x people (Registry de i t e n xr subs recs exps) d =
     (case unmarshalRecords x people (Registry de i t e n xr subs recs exps) d of
        (Some err, d1) \<Rightarrow> (Some err, d1)
      | (None, d1) \<Rightarrow> registries_unmarshal x people subs d1)"
| "registries_unmarshal x people [] d = (None, d)"
| "registries_unmarshal x people (subregi # rest) d =
     (case registry_unmarshal x people subregi d of
        (Some err, d1) \<Rightarrow> (Some err, d1)
      | (None, d1) \<Rightarrow> registries_unmarshal x people rest d1)"

section \<open>The authorities\<close>

text \<open>The state of the gathering: the map \<^verbatim>\<open>smi.people\<close> from source keys to registrants,
  and the tree with its ordered collection of registrants. A new registrant takes its DN
  from the collaborator's generator.\<close>

type_synonym gather_state = "(string \<rightharpoonup> registrant) \<times> DIT"

definition new_registrant :: "env \<Rightarrow> DIT \<Rightarrow> registrant \<times> DIT" where
  "new_registrant x d =
     (NewRegistrant\<lparr>ath_DN := RegistrantDNGenerator x (dnseed d)\<rparr>, d\<lparr>dnseed := Suc (dnseed d)\<rparr>)"

definition Push :: "registrant \<Rightarrow> DIT \<Rightarrow> DIT" where
  "Push athy d = d\<lparr>aths := aths d @ [athy]\<rparr>"

text \<open>The body of the loop of \<^verbatim>\<open>registry.gatherExperts\<close> over the fields of the expert
  text, on the registry's own experts and the state. \<open>expert_fields\<close> computes, from one
  field, the key (\<^verbatim>\<open>orig\<close>), the name (\<^verbatim>\<open>sl\<close>) and the organization (\<^verbatim>\<open>desc\<close>).\<close>

definition expert_fields :: "string \<Rightarrow> string \<times> string \<times> string" where
  "expert_fields sl =
     (let orig = trimS sl;
          sl1 = trimS (CondenseWHSP sl);
          idx = sidx sl1 '' (''
      in if idx \<noteq> -1
         then (orig, take (nat idx) sl1, ''IANA, '' @ trimR (drop (nat idx + 2) sl1) '')'')
         else (orig, sl1, ''IANA''))"

definition expert_step :: "env \<Rightarrow> registrant list \<times> gather_state \<Rightarrow> string \<Rightarrow> registrant list \<times> gather_state" where
  "expert_step x st sl =
     (case st of (experts, people, d) \<Rightarrow>
        (case expert_fields sl of
           (orig, name, desc) \<Rightarrow>
             if name \<noteq> []
             then (case people orig of
                     Some found \<Rightarrow> (experts, people, d)
                   | None \<Rightarrow>
                       (case new_registrant x d of
                          (athy0, d1) \<Rightarrow>
                            let athy = athy0\<lparr>ath_CN := name, ath_O := desc\<rparr>
                            in (experts @ [athy], people(orig \<mapsto> athy), Push athy d1)))
             else (experts, people, d)))"

fun gatherExperts :: "env \<Rightarrow> registry \<Rightarrow> gather_state \<Rightarrow> registry \<times> gather_state"
  and gatherExperts_all :: "env \<Rightarrow> registry list \<Rightarrow> gather_state \<Rightarrow> registry list \<times> gather_state"
where
  "gatherExperts x (Registry de i t e n xr subs recs exps) st =
     (case foldl (expert_step x) (exps, st) (split (inner_Text e) CHR '','') of
        (exps1, st1) \<Rightarrow>
          (case gatherExperts_all x subs st1 of
             (subs1, st2) \<Rightarrow> (Registry de i t e n xr subs1 recs exps1, st2)))"
| "gatherExperts_all x [] st = ([], st)"
| "gatherExperts_all x (r # rest) st =
     (case gatherExperts x r st of
        (r1, st1) \<Rightarrow>
          (case gatherExperts_all x rest st1 of (rest1, st2) \<Rightarrow> (r1 # rest1, st2)))"

text \<open>The body of the loop of \<^verbatim>\<open>smiRegistry.gatherRegistrants\<close> over the persons, then the
  function.\<close>

definition person_step :: "env \<Rightarrow> gather_state \<Rightarrow> person \<Rightarrow> gather_state" where
  "person_step x st p =
     (case st of (people, d) \<Rightarrow>
        (case people (person_ID p) of
           Some found \<Rightarrow> (people, d)
         | None \<Rightarrow>
             (case new_registrant x d of
                (regi0, d1) \<Rightarrow>
                  let regi1 = regi0\<lparr>ath_CN := person_Name p, ath_Description := person_Name p\<rparr>;
                      uri = person_URI p;
                      regi2 = (if length uri > 0
                               then (if hasPfx uri ''mailto:''
                                     then regi1\<lparr>ath_Email := rplc (rplc (drop 7 uri) ''&'' ''@'') ''%25'' ''%''\<rparr>
                                     else regi1\<lparr>ath_URI := uri\<rparr>)
                               else regi1);
                      regi = (if length (person_Name p) > 0
                              then (if person_Name p = ''IANA''
                                    then regi2\<lparr>ath_O := person_Name p\<rparr>
                                    else regi2\<lparr>ath_CN := person_Name p\<rparr>)
                              else regi2)
                  in (people(person_ID p \<mapsto> regi), Push regi d1))))"

definition gatherRegistrants :: "env \<Rightarrow> person list \<Rightarrow> registry list \<Rightarrow> gather_state \<Rightarrow> registry list \<times> gather_state" where
  "gatherRegistrants x ps regs st = gatherExperts_all x regs (foldl (person_step x) st ps)"

section \<open>Loading the nested registry, and the import\<close>

text \<open>\<^verbatim>\<open>smiRegistry.unmarshal\<close>: the authorities are gathered, then every registry is walked,
  up to the first error. A registry whose id is a key of \<^verbatim>\<open>missingRegistryURNs\<close> takes as
  its description the table's entry for the value found (the empty string when the table
  has none).\<close>

definition patch_description :: "env \<Rightarrow> registry \<Rightarrow> registry" where
  "patch_description x r =
     (case r of Registry de i t e n xr subs recs exps \<Rightarrow>
        (case missingRegistryURNs x i of
           None \<Rightarrow> r
         | Some k \<Rightarrow>
             Registry (case missingRegistryURNs x k of None \<Rightarrow> [] | Some v \<Rightarrow> v)
               i t e n xr subs recs exps))"

fun smi_loop :: "env \<Rightarrow> (string \<rightharpoonup> registrant) \<Rightarrow> registry list \<Rightarrow> DIT \<Rightarrow> error option \<times> DIT" where
  "smi_loop x people [] d = (None, d)"
| "smi_loop x people (regi # rest) d =
     (case registry_unmarshal x people (patch_description x regi) d of
        (Some err, d1) \<Rightarrow> (Some err, d1)
      | (None, d1) \<Rightarrow> smi_loop x people rest d1)"

definition smiRegistry_unmarshal :: "env \<Rightarrow> person list \<Rightarrow> registry list \<Rightarrow> gather_state \<Rightarrow> error option \<times> DIT" where
  "smiRegistry_unmarshal x ps regs st =
     (case gatherRegistrants x ps regs st of
        (regs1, people, d) \<Rightarrow> smi_loop x people regs1 d)"

text \<open>\<^verbatim>\<open>ReadBytes\<close> of \<^verbatim>\<open>internal/common/util.go\<close> and \<^verbatim>\<open>LoadSMIRegistry\<close>. The map of people
  is made empty by every load.\<close>

definition ReadBytes :: "env \<Rightarrow> string \<Rightarrow> error + string" where
  "ReadBytes x file = (case osOpen x file of Inl err \<Rightarrow> Inl err | Inr b \<Rightarrow> Inr b)"

definition LoadSMIRegistry :: "env \<Rightarrow> DIT \<Rightarrow> string \<Rightarrow> error option \<times> DIT" where
  "LoadSMIRegistry x r filename =
     (case ReadBytes x filename of
        Inl err \<Rightarrow> (Some err, r)
      | Inr content \<Rightarrow>
          (case xmlUnmarshal x content of
             (err, ps, regs) \<Rightarrow>
               if \<not> errNotEoF err then smiRegistry_unmarshal x ps regs (Map.empty, r)
               else (err, r)))"

text \<open>\<^verbatim>\<open>RADIT.Import\<close>. An \<^verbatim>\<open>ImportList\<close> is a map from key names to file names, and
  \<open>None\<close> is the nil map. The receiver holds the tree that \<^verbatim>\<open>New\<close> made.\<close>

record RADIT =
  dit :: DIT

definition Import :: "env \<Rightarrow> RADIT \<Rightarrow> (string \<rightharpoonup> string) option \<Rightarrow> error option \<times> RADIT" where
  "Import x r imp =
     (case imp of
        None \<Rightarrow> (None, r)
      | Some m \<Rightarrow>
          (case (case m ''smifile'' of
                   Some file \<Rightarrow> LoadSMIRegistry x (dit r) file
                 | None \<Rightarrow> (None, dit r)) of
             (Some err, d1) \<Rightarrow> (Some err, r\<lparr>dit := d1\<rparr>)
           | (None, d1) \<Rightarrow>
               (case (case m ''ldapfile'' of
                        Some file \<Rightarrow> LoadSMIRegistry x d1 file
                      | None \<Rightarrow> (None, d1)) of
                  (Some err, d2) \<Rightarrow> (Some err, r\<lparr>dit := d2\<rparr>)
                | (None, d2) \<Rightarrow>
                    (case m ''penfile'' of
                       Some file \<Rightarrow>
                         (case LoadPENRegistry x (Some d2) file of
                            (err, Some d3) \<Rightarrow> (err, r\<lparr>dit := d3\<rparr>)
                          | (err, None) \<Rightarrow> (err, r\<lparr>dit := d2\<rparr>))
                     | None \<Rightarrow> (None, r\<lparr>dit := d2\<rparr>)))))"

section \<open>Instances of the environment\<close>

text \<open>
  Modelled from the spec: the identifier grammar of X.680 (a lower-case letter, then
  letters, digits and single hyphens, no hyphen at the end) and the dotted numeric path
  (two arcs or more, each a number) stand for \<^verbatim>\<open>radir.IsIdentifier\<close> and
  \<^verbatim>\<open>radir.IsNumericOID\<close> wherever a function is run on a concrete input.
\<close>

definition isLowerAlpha :: "char \<Rightarrow> bool" where
  "isLowerAlpha c = (let n = (of_char c :: nat) in 97 \<le> n \<and> n \<le> 122)"

definition isAlnum :: "char \<Rightarrow> bool" where
  "isAlnum c = (let n = (of_char c :: nat) in (97 \<le> n \<and> n \<le> 122) \<or> (65 \<le> n \<and> n \<le> 90) \<or> (48 \<le> n \<and> n \<le> 57))"

fun hyphens_ok :: "bool \<Rightarrow> string \<Rightarrow> bool" where
  "hyphens_ok prev [] = True"
| "hyphens_ok prev (c # cs) =
     (if isAlnum c then hyphens_ok False cs
      else if c = CHR ''-'' then (if prev then False else hyphens_ok True cs)
      else False)"

definition x680_identifier :: "string \<Rightarrow> bool" where
  "x680_identifier s =
     (if s = [] then False
      else if \<not> isLowerAlpha (hd s) then False
      else if \<not> isAlnum (last s) then False
      else hyphens_ok False s)"

definition numeric_oid :: "string \<Rightarrow> bool" where
  "numeric_oid s = (1 < length (split s CHR ''.'') \<and> list_all IsNumber (split s CHR ''.''))"

text \<open>An environment for the scenarios: one override in \<^verbatim>\<open>i2i\<close>, no other table entry,
  the allocation of the spec, and a file system, a scanner and a decoder that are given.\<close>

definition example_env ::
  "(string \<Rightarrow> error + string) \<Rightarrow> (string \<Rightarrow> string list \<times> error option)
     \<Rightarrow> (string \<Rightarrow> error option \<times> person list \<times> registry list) \<Rightarrow> env" where
  "example_env files scanner decoder =
     \<lparr>IsIdentifier = x680_identifier, IsNumericOID = numeric_oid,
      i2i = [''IEEE802.4'' \<mapsto> ''ieee802dot4''],
      missingRecordNames = Map.empty, missingRegistryURNs = Map.empty,
      JesseOID = [''1.3.6.1.4.1.56521.101''],
      Allocate = Allocate_spec,
      DotNotToDN2D = (\<lambda>dot. ''dotNotation='' @ dot),
      DotNotToDN3D = (\<lambda>dot. ''dotNotation='' @ dot),
      RegistrantDNGenerator = (\<lambda>n. ''registrantID='' @ itoa (int n)),
      osOpen = files, scanLines = scanner, xmlUnmarshal = decoder,
      decodeNote = (\<lambda>n. (Some EOF, n))\<rparr>"

definition no_files :: "string \<Rightarrow> error + string" where
  "no_files name = Inl (Err ''no such file or directory'')"

definition no_lines :: "string \<Rightarrow> string list \<times> error option" where
  "no_lines content = ([], None)"

definition no_document :: "string \<Rightarrow> error option \<times> person list \<times> registry list" where
  "no_document content = (None, [], [])"

definition example_profile :: "bool \<Rightarrow> profile" where
  "example_profile dedicated =
     \<lparr>Dedicated = dedicated, Combined = \<not> dedicated, TwoDimensional = False,
      RegistrationBase = ''ou=Registrations,o=rA''\<rparr>"

section \<open>Notions for the statements\<close>

text \<open>
  \<open>visits x people rs d r d'\<close>: the walk of \<^verbatim>\<open>registry.unmarshal\<close> over the registries \<open>rs\<close>,
  started on the tree \<open>d\<close>, reaches the registry \<open>r\<close> with the tree \<open>d'\<close> and no error
  before it. The registry is the first of the list, or is reached inside the first one
  after that one's own records, or after the first one has been walked with no error.
\<close>

inductive visits :: "env \<Rightarrow> (string \<rightharpoonup> registrant) \<Rightarrow> registry list \<Rightarrow> DIT \<Rightarrow> registry \<Rightarrow> DIT \<Rightarrow> bool"
  for x :: env and people :: "string \<rightharpoonup> registrant"
where
  here: "visits x people (r # rest) d r d"
| inside: "unmarshalRecords x people r d = (None, d1) \<Longrightarrow> visits x people (reg_Registries r) d1 r' d'
     \<Longrightarrow> visits x people (r # rest) d r' d'"
| after: "registry_unmarshal x people r d = (None, d1) \<Longrightarrow> visits x people rest d1 r' d'
     \<Longrightarrow> visits x people (r # rest) d r' d'"

text \<open>
  The source keys of a nested registry in the order in which the gathering meets them: the
  ids of the persons, then, registry by registry and before its sub-registries, the keys of
  the fields of the expert text that have a name. \<open>first_encounters seen ks\<close> keeps of
  \<open>ks\<close> the first occurrence of every key that is not in \<open>seen\<close>.
\<close>

fun first_encounters :: "'a set \<Rightarrow> 'a list \<Rightarrow> 'a list" where
  "first_encounters seen [] = []"
| "first_encounters seen (k # ks) =
     (if k \<in> seen then first_encounters seen ks else k # first_encounters (insert k seen) ks)"

definition own_expert_keys :: "string \<Rightarrow> string list" where
  "own_expert_keys text =
     map (\<lambda>sl. fst (expert_fields sl))
       (filter (\<lambda>sl. fst (snd (expert_fields sl)) \<noteq> []) (split text CHR '',''))"

fun expert_keys :: "registry \<Rightarrow> string list"
  and expert_keys_all :: "registry list \<Rightarrow> string list"
where
  "expert_keys (Registry de i t e n xr subs recs exps) = own_expert_keys (inner_Text e) @ expert_keys_all subs"
| "expert_keys_all [] = []"
| "expert_keys_all (r # rest) = expert_keys r @ expert_keys_all rest"

definition source_keys :: "person list \<Rightarrow> registry list \<Rightarrow> string list" where
  "source_keys ps regs = map person_ID ps @ expert_keys_all regs"

text \<open>The effect of a part of the gathering that meets the keys \<open>ks\<close>: they are added to the
  map, the entries that were there are kept, and one registrant per first encounter is
  appended, the one that the map holds for the key.\<close>

definition gathered :: "gather_state \<Rightarrow> string list \<Rightarrow> gather_state \<Rightarrow> bool" where
  "gathered st ks st' =
     (dom (fst st') = dom (fst st) \<union> set ks
      \<and> (\<forall>k\<in>dom (fst st). fst st' k = fst st k)
      \<and> aths (snd st') = aths (snd st) @ map (\<lambda>k. the (fst st' k)) (first_encounters (dom (fst st)) ks))"

section \<open>Lemmas\<close>







section \<open>The legalizer returns a valid identifier or nothing\<close>



section \<open>The flat scanner\<close>




section \<open>The flat import needs the primed tree\<close>

text \<open>
  C5. When the lookup of 1.3.6.1.4.1 below the ISO root finds no node, the flat import
  returns the error "Missing 1.3.6.1.4.1 parent; DIT must be primed before use" whatever
  the numbers are, and so does the load of a file that opens and scans without error. The
  tree it leaves is the one \<^verbatim>\<open>DIT.ISO\<close> returns: the tree it was given, with at most the ISO
  root made; no child is allocated.
\<close>

theorem pen_import_unprimed:
  assumes "Walk (fst (ISO d)) (snd (ISO d)) entDotPfx = None"
  shows "penRegistry_unmarshal x numbers d
           = (Some (Err ''Missing 1.3.6.1.4.1 parent; DIT must be primed before use''), fst (ISO d))
       \<and> (osOpen x filename = Inr f \<and> scanLines x f = (lines, None) \<longrightarrow>
            LoadPENRegistry x (Some d) filename
              = (Some (Err ''Missing 1.3.6.1.4.1 parent; DIT must be primed before use''), Some (fst (ISO d))))
       \<and> (fst (ISO d) = d \<or> (\<exists>root. Children root = [] \<and> nodes (fst (ISO d)) = nodes d @ [root]))"
proof -
  have u: "penRegistry_unmarshal x ns d
           = (Some (Err ''Missing 1.3.6.1.4.1 parent; DIT must be primed before use''), fst (ISO d))" for ns
    using assms by (cases "ISO d") (simp add: penRegistry_unmarshal_def Let_def)
  have l: "osOpen x filename = Inr f \<and> scanLines x f = (lines, None) \<longrightarrow>
            LoadPENRegistry x (Some d) filename
              = (Some (Err ''Missing 1.3.6.1.4.1 parent; DIT must be primed before use''), Some (fst (ISO d)))"
    by (simp add: LoadPENRegistry_def u)
  have n: "fst (ISO d) = d \<or> (\<exists>root. Children root = [] \<and> nodes (fst (ISO d)) = nodes d @ [root])"
    by (cases "tree d ! 1") (simp_all add: ISO_def root_node_def Let_def NewRegistration_def)
  from u l n show ?thesis by blast
qed

theorem pen_import_unprimed_witness:
  "LoadPENRegistry
     (example_env (\<lambda>name. Inr ''content'') (\<lambda>content. (replicate 16 ''header'' @ [''Reserved'', ''IANA'', ''iana&iana.org''], None))
        no_document)
     (Some (NewDIT (example_profile True))) ''enterprise-numbers.txt''
   = (Some (Err ''Missing 1.3.6.1.4.1 parent; DIT must be primed before use''),
      Some (fst (ISO (NewDIT (example_profile True)))))"
proof -
  have h: "Walk (fst (ISO (NewDIT (example_profile True)))) (snd (ISO (NewDIT (example_profile True)))) entDotPfx = None"
    by code_simp
  from pen_import_unprimed [OF h,
      of "example_env (\<lambda>name. Inr ''content'') (\<lambda>content. (replicate 16 ''header'' @ [''Reserved'', ''IANA'', ''iana&iana.org''], None)) no_document"
         _ "''enterprise-numbers.txt''" "''content''"
         "replicate 16 ''header'' @ [''Reserved'', ''IANA'', ''iana&iana.org'']"]
  show ?thesis
    by (simp add: example_env_def)
qed

section \<open>The classifier\<close>

text \<open>
  C10. A cross-reference of type registry or text whose content is empty or is the
  string "Not Defined ?" leaves the tree as it is: in particular the free-text info and the
  status of every node are unchanged.
\<close>

theorem process_undefined_content:
  assumes "xref_Type r = ''registry'' \<or> xref_Type r = ''text''"
    and "xref_Content r = [] \<or> xref_Content r = ''Not Defined ?''"
  shows "process r reg d = d
    \<and> Info (deref (process r reg d) n) = Info (deref d n)
    \<and> Status (deref (process r reg d) n) = Status (deref d n)"
  using assms by (auto simp: process_def processContentUsers_def)

theorem process_undefined_content_witness:
  "process \<lparr>xref_Type = ''text'', xref_Data = ''1'', xref_Content = ''Not Defined ?''\<rparr> (Some 0)
       (fst (ISO (NewDIT (example_profile True))))
     = fst (ISO (NewDIT (example_profile True)))
   \<and> Info (deref (process \<lparr>xref_Type = ''text'', xref_Data = ''1'', xref_Content = ''Not Defined ?''\<rparr> (Some 0)
        (fst (ISO (NewDIT (example_profile True))))) (Some 0))
     = Info (deref (fst (ISO (NewDIT (example_profile True)))) (Some 0))
   \<and> Status (deref (process \<lparr>xref_Type = ''text'', xref_Data = ''1'', xref_Content = ''Not Defined ?''\<rparr> (Some 0)
        (fst (ISO (NewDIT (example_profile True))))) (Some 0))
     = Status (deref (fst (ISO (NewDIT (example_profile True)))) (Some 0))"
  using process_undefined_content
    [of "\<lparr>xref_Type = ''text'', xref_Data = ''1'', xref_Content = ''Not Defined ?''\<rparr>"
        "Some 0" "fst (ISO (NewDIT (example_profile True)))" "Some 0"]
  by simp

text \<open>
  C7. A cross-reference of type uri that has an address and no link label: the classifier
  returns the tree as it was given, so the address is not recorded as the node's URI. With a
  label, the URI is the address, a blank and the label.
\<close>

theorem uri_without_label_not_recorded:
  "process \<lparr>xref_Type = ''uri'', xref_Data = ''https://www.iana.org/assignments/smi-numbers'', xref_Content = []\<rparr> reg d = d
   \<and> process \<lparr>xref_Type = ''uri'', xref_Data = ''https://www.iana.org/assignments/smi-numbers'', xref_Content = ''SMI''\<rparr> reg d
     = SetURI reg ''https://www.iana.org/assignments/smi-numbers SMI'' d"
  by (simp add: process_def processDataUsers_def)

section \<open>The import\<close>

text \<open>
  C9. \<^verbatim>\<open>Import\<close> with the nil \<^verbatim>\<open>ImportList\<close> returns no error and leaves the receiver as it
  is.
\<close>

theorem Import_nil: "Import x r None = (None, r)"
  by (simp add: Import_def)

theorem Import_nil_witness:
  "Import (example_env no_files no_lines no_document) \<lparr>dit = NewDIT (example_profile True)\<rparr> None
     = (None, \<lparr>dit = NewDIT (example_profile True)\<rparr>)"
  using Import_nil [of "example_env no_files no_lines no_document" "\<lparr>dit = NewDIT (example_profile True)\<rparr>"]
  by simp

section \<open>One authority for every source key\<close>

lemma first_encounters_append:
  "first_encounters S (ks1 @ ks2) = first_encounters S ks1 @ first_encounters (S \<union> set ks1) ks2"
  by (induction ks1 arbitrary: S) (simp_all add: insert_absorb)

lemma first_encounters_set: "set (first_encounters S ks) = set ks - S"
  by (induction ks arbitrary: S) auto

lemma first_encounters_distinct: "distinct (first_encounters S ks)"
  by (induction ks arbitrary: S) (auto simp: first_encounters_set)

lemma gathered_refl: "gathered st [] st"
  by (simp add: gathered_def)

lemma gathered_trans:
  assumes "gathered st ks1 st1" "gathered st1 ks2 st2"
  shows "gathered st (ks1 @ ks2) st2"
proof -
  obtain p d where st: "st = (p, d)" by (cases st)
  obtain p1 d1 where st1: "st1 = (p1, d1)" by (cases st1)
  obtain p2 d2 where st2: "st2 = (p2, d2)" by (cases st2)
  from assms(1) st st1 have a: "dom p1 = dom p \<union> set ks1" "\<forall>k\<in>dom p. p1 k = p k"
    "aths d1 = aths d @ map (\<lambda>k. the (p1 k)) (first_encounters (dom p) ks1)"
    by (simp_all add: gathered_def)
  from assms(2) st1 st2 have b: "dom p2 = dom p1 \<union> set ks2" "\<forall>k\<in>dom p1. p2 k = p1 k"
    "aths d2 = aths d1 @ map (\<lambda>k. the (p2 k)) (first_encounters (dom p1) ks2)"
    by (simp_all add: gathered_def)
  have same: "map (\<lambda>k. the (p1 k)) (first_encounters (dom p) ks1) = map (\<lambda>k. the (p2 k)) (first_encounters (dom p) ks1)"
  proof (rule map_cong [OF refl])
    fix k assume "k \<in> set (first_encounters (dom p) ks1)"
    then have "k \<in> dom p1" using a(1) by (simp add: first_encounters_set)
    with b(2) show "the (p1 k) = the (p2 k)" by simp
  qed
  have "dom p2 = dom p \<union> set (ks1 @ ks2)" using a(1) b(1) by auto
  moreover have "\<forall>k\<in>dom p. p2 k = p k" using a(1,2) b(2) by auto
  moreover have "aths d2 = aths d @ map (\<lambda>k. the (p2 k)) (first_encounters (dom p) (ks1 @ ks2))"
    using a(3) b(3) same a(1) by (simp add: first_encounters_append)
  ultimately show ?thesis using st st2 by (simp add: gathered_def)
qed

lemma person_step_gathered: "gathered st [person_ID p] (person_step x st p)"
  by (cases st) (auto simp: gathered_def person_step_def new_registrant_def Push_def Let_def
        split: option.splits)

lemma persons_gathered: "gathered st (map person_ID ps) (foldl (person_step x) st ps)"
proof (induction ps arbitrary: st)
  case Nil
  show ?case by (simp add: gathered_refl)
next
  case (Cons p ps)
  from gathered_trans [OF person_step_gathered [of st p x] Cons.IH [of "person_step x st p"]]
  show ?case by simp
qed

lemma expert_step_gathered:
  "gathered st (if fst (snd (expert_fields sl)) \<noteq> [] then [fst (expert_fields sl)] else [])
     (snd (expert_step x (exps, st) sl))"
  by (cases st; cases "expert_fields sl")
     (auto simp: gathered_def expert_step_def new_registrant_def Push_def Let_def split: option.splits)

lemma experts_gathered:
  "gathered st (map (\<lambda>sl. fst (expert_fields sl)) (filter (\<lambda>sl. fst (snd (expert_fields sl)) \<noteq> []) sls))
     (snd (foldl (expert_step x) (exps, st) sls))"
proof (induction sls arbitrary: exps st)
  case Nil
  show ?case by (simp add: gathered_refl)
next
  case (Cons sl sls)
  obtain exps1 st1 where s: "expert_step x (exps, st) sl = (exps1, st1)"
    by (cases "expert_step x (exps, st) sl")
  have g1: "gathered st (if fst (snd (expert_fields sl)) \<noteq> [] then [fst (expert_fields sl)] else []) st1"
    using expert_step_gathered [of st sl x exps] s by simp
  from gathered_trans [OF g1 Cons.IH [where exps=exps1 and st=st1]] s
  show ?case by (cases "fst (snd (expert_fields sl)) = []") simp_all
qed

lemma gatherExperts_gathered:
  "gathered st (expert_keys r) (snd (gatherExperts x r st))"
  "gathered st (expert_keys_all rs) (snd (gatherExperts_all x rs st))"
proof (induction x r st and x rs st rule: gatherExperts_gatherExperts_all.induct)
  case (1 x de i t e n xr subs recs exps st)
  obtain exps1 st1 where f: "foldl (expert_step x) (exps, st) (split (inner_Text e) CHR '','') = (exps1, st1)"
    by (cases "foldl (expert_step x) (exps, st) (split (inner_Text e) CHR '','')")
  have g1: "gathered st (own_expert_keys (inner_Text e)) st1"
    using experts_gathered [of st "split (inner_Text e) CHR '',''" x exps] f
    by (simp add: own_expert_keys_def)
  have g2: "gathered st1 (expert_keys_all subs) (snd (gatherExperts_all x subs st1))"
    using "1.IH" f by simp
  from gathered_trans [OF g1 g2] f show ?case
    by (auto split: prod.splits)
next
  case (2 x st)
  show ?case by (simp add: gathered_refl)
next
  case (3 x r rest st)
  obtain r1 st1 where f: "gatherExperts x r st = (r1, st1)" by (cases "gatherExperts x r st")
  have g1: "gathered st (expert_keys r) st1" using "3.IH"(1) f by simp
  have g2: "gathered st1 (expert_keys_all rest) (snd (gatherExperts_all x rest st1))"
    using "3.IH"(2) f by simp
  from gathered_trans [OF g1 g2] f show ?case
    by (auto split: prod.splits)
qed

text \<open>
  C8, as amended. In one load of a nested registry, whose map of people starts empty, the
  keys of the map are the source keys of the document, and the registrants appended to the
  ordered collection are, in the order of first encounter, the one registrant that the map
  holds for each distinct key: one authority per key, appended once, whatever the order
  and the number of the occurrences. The map is made anew by every load: see
  \<open>two_sources_counterexample\<close>.
\<close>

theorem one_authority_per_key:
  assumes "gatherRegistrants x ps regs (Map.empty, d) = (regs1, people, d1)"
  shows "dom people = set (source_keys ps regs)
       \<and> aths d1 = aths d @ map (\<lambda>k. the (people k)) (first_encounters {} (source_keys ps regs))
       \<and> distinct (first_encounters {} (source_keys ps regs))
       \<and> set (first_encounters {} (source_keys ps regs)) = set (source_keys ps regs)
       \<and> length (aths d1) = length (aths d) + card (set (source_keys ps regs))"
proof -
  have "gathered (Map.empty, d) (source_keys ps regs) (people, d1)"
    using gathered_trans [OF persons_gathered [of "(Map.empty, d)" ps x]
        gatherExperts_gathered(2) [of "foldl (person_step x) (Map.empty, d) ps" regs x]] assms
    by (simp add: gatherRegistrants_def source_keys_def)
  then have g: "dom people = set (source_keys ps regs)"
    "aths d1 = aths d @ map (\<lambda>k. the (people k)) (first_encounters {} (source_keys ps regs))"
    by (simp_all add: gathered_def)
  have c: "length (first_encounters {} (source_keys ps regs)) = card (set (source_keys ps regs))"
    using distinct_card [OF first_encounters_distinct [of "{}" "source_keys ps regs"]]
    by (simp add: first_encounters_set)
  from g c show ?thesis
    by (simp add: first_encounters_distinct first_encounters_set)
qed

section \<open>A node allocated at another path is fatal\<close>

lemma registry_unmarshal_unfold:
  "registry_unmarshal x people r d =
     (case unmarshalRecords x people r d of
        (Some err, d1) \<Rightarrow> (Some err, d1)
      | (None, d1) \<Rightarrow> registries_unmarshal x people (reg_Registries r) d1)"
  by (cases r) (simp split: prod.splits option.splits)

lemma visits_fatal:
  assumes "visits x people rs d r dr" and "unmarshalRecords x people r dr = (Some e, d')"
  shows "registries_unmarshal x people rs d = (Some e, d')"
  using assms
proof (induction rule: visits.induct)
  case (here r rest d)
  then show ?case by (simp add: registry_unmarshal_unfold)
next
  case (inside r d d1 r' d' rest)
  then show ?case by (simp add: registry_unmarshal_unfold)
next
  case (after r d d1 rest r' d')
  then show ?case by simp
qed

lemma smi_loop_map:
  "smi_loop x people regs d = registries_unmarshal x people (map (patch_description x) regs) d"
  by (induction regs arbitrary: d) (auto split: prod.splits option.splits)

lemma unmarshalRecords_mismatch:
  assumes "descriptionAndOID x (srcinfo r) = (desc, oid)" "oid \<noteq> []"
    and "registry_prelude x r oid d = ((err, d5), parent)"
    and "DotNotation (deref d5 parent) \<noteq> oid"
  shows "\<exists>e. unmarshalRecords x people r d = (Some e, d5)"
  using assms by (cases err) (simp_all add: unmarshalRecords_def Let_def)

lemma Import_smifile_error:
  assumes "m ''smifile'' = Some file" "LoadSMIRegistry x (dit r0) file = (Some e, d')"
  shows "Import x r0 (Some m) = (Some e, r0\<lparr>dit := d'\<rparr>)"
  using assms by (simp add: Import_def)

lemma Import_ldapfile_error:
  assumes "m ''ldapfile'' = Some file"
    and "case m ''smifile'' of None \<Rightarrow> d0 = dit r0 | Some f \<Rightarrow> LoadSMIRegistry x (dit r0) f = (None, d0)"
    and "LoadSMIRegistry x d0 file = (Some e, d')"
  shows "Import x r0 (Some m) = (Some e, r0\<lparr>dit := d'\<rparr>)"
  using assms by (cases "m ''smifile''") (simp_all add: Import_def)

text \<open>
  C3. A registry of a nested source is reached by the walk with no error before it; its
  description gives the path \<open>oid\<close>; the node that the allocation returns has, after the
  experts, the cross-references and the notes of the registry are applied, a dot notation
  that differs from \<open>oid\<close>. Then the processing of the registry returns an error and the
  tree is the one that those steps left: the registry's records are not processed, nor are
  its sub-registries. The load of the source returns this error and this tree, and so does
  the import, for a source named by \<^verbatim>\<open>smifile\<close> and for one named by \<^verbatim>\<open>ldapfile\<close>: no later
  registry and no later source is read.
\<close>

theorem allocation_mismatch_is_fatal:
  assumes "ReadBytes x file = Inr content" "xmlUnmarshal x content = (err0, ps, regs)" "\<not> errNotEoF err0"
    and "gatherRegistrants x ps regs (Map.empty, d0) = (regs1, people, d1)"
    and "visits x people (map (patch_description x) regs1) d1 r d"
    and "descriptionAndOID x (srcinfo r) = (desc, oid)" "oid \<noteq> []"
    and "registry_prelude x r oid d = ((err, d5), parent)"
    and "DotNotation (deref d5 parent) \<noteq> oid"
  shows "\<exists>e. unmarshalRecords x people r d = (Some e, d5)
           \<and> registry_unmarshal x people r d = (Some e, d5)
           \<and> LoadSMIRegistry x d0 file = (Some e, d5)
           \<and> (m ''smifile'' = Some file \<and> d0 = dit r0 \<longrightarrow> Import x r0 (Some m) = (Some e, r0\<lparr>dit := d5\<rparr>))
           \<and> (m ''ldapfile'' = Some file
                \<and> (case m ''smifile'' of None \<Rightarrow> d0 = dit r0 | Some f \<Rightarrow> LoadSMIRegistry x (dit r0) f = (None, d0))
              \<longrightarrow> Import x r0 (Some m) = (Some e, r0\<lparr>dit := d5\<rparr>))"
proof -
  from unmarshalRecords_mismatch [OF assms(6-9)]
  obtain e where u: "unmarshalRecords x people r d = (Some e, d5)" by blast
  then have ru: "registry_unmarshal x people r d = (Some e, d5)"
    by (simp add: registry_unmarshal_unfold)
  have "smi_loop x people regs1 d1 = (Some e, d5)"
    using visits_fatal [OF assms(5) u] by (simp add: smi_loop_map)
  then have l: "LoadSMIRegistry x d0 file = (Some e, d5)"
    using assms(1-4) by (simp add: LoadSMIRegistry_def smiRegistry_unmarshal_def)
  have s: "m ''smifile'' = Some file \<and> d0 = dit r0 \<longrightarrow> Import x r0 (Some m) = (Some e, r0\<lparr>dit := d5\<rparr>)"
    using l by (auto intro: Import_smifile_error)
  have a: "m ''ldapfile'' = Some file
        \<and> (case m ''smifile'' of None \<Rightarrow> d0 = dit r0 | Some f \<Rightarrow> LoadSMIRegistry x (dit r0) f = (None, d0))
      \<longrightarrow> Import x r0 (Some m) = (Some e, r0\<lparr>dit := d5\<rparr>)"
    using l by (auto intro: Import_ldapfile_error)
  from u ru l s a show ?thesis by blast
qed

section \<open>Obsolete records\<close>

lemma obsolete_first:
  assumes "rec_XRef r = pre @ xr # post"
    and "list_all (\<lambda>y. xref_Type y \<noteq> ''note'' \<and> xref_Type y \<noteq> ''text'') pre"
    and "xref_Type xr = ''note''" "xref_Data xr = ''1''"
  shows "obsolete r"
proof -
  have "obsolete_xrefs (pre @ xr # post)"
    using assms(2-4) by (induction pre) simp_all
  with assms(1) show ?thesis by (simp add: obsolete_def)
qed

lemma record_step_obsolete: "obsolete r \<Longrightarrow> record_step x people parent d r = d"
  by (simp add: record_step_def split: prod.splits)

text \<open>
  C4, as amended. A leaf record whose first cross-reference of type note or text is a note
  with code 1 is passed over by the import: the tree is returned as it was given, no node
  is allocated or marked for the record, and the import is the one of the records without
  it. It is the classifier that sets the status OBSOLETE, on the node it is applied to.
\<close>

theorem obsolete_record_skipped:
  assumes "rec_XRef r = pre @ xr # post"
    and "list_all (\<lambda>y. xref_Type y \<noteq> ''note'' \<and> xref_Type y \<noteq> ''text'') pre"
    and "xref_Type xr = ''note''" "xref_Data xr = ''1''"
  shows "record_step x people parent d r = d
       \<and> records_unmarshal x people parent (rs1 @ r # rs2) d = records_unmarshal x people parent (rs1 @ rs2) d
       \<and> process xr reg d = SetStatus reg ''OBSOLETE'' d"
proof -
  have o: "obsolete r" using assms by (rule obsolete_first)
  have p: "process xr reg d = SetStatus reg ''OBSOLETE'' d"
    using assms(3,4) by (simp add: process_def processDataUsers_def)
  from o p show ?thesis
    by (simp add: records_unmarshal_def record_step_obsolete)
qed

end
